theory Spec2Isabelle
  imports Complex_Main
begin

section \<open>Milk supply prediction and route demo: the form handler of app.py\<close>

text \<open>
  The program is a single request handler: \<^verbatim>\<open>do_POST\<close> reads four form fields
  (villages, milk_data, distances, capacity), validates them while collecting error
  messages, and either re-renders the form with the errors or computes predictions
  (\<^verbatim>\<open>predict_supply\<close>), a route with its total distance (\<^verbatim>\<open>optimize_route\<close>), the total
  predicted volume and a capacity verdict, and renders them (\<^verbatim>\<open>render_page\<close>).

  The handler is a pure function of the decoded form, so it is modelled as a function
  from the form dictionary to the arguments it passes to \<^verbatim>\<open>render_page\<close>.  The socket
  reads and writes around it are not modelled.  Python's strings and floats are modelled
  first, since every validation rule and every computed number goes through them.
\<close>

subsection \<open>Python strings: \<^verbatim>\<open>str.split\<close>, \<^verbatim>\<open>str.strip\<close>\<close>

text \<open>
  A string is a list of characters; a character stands for the code point of the same
  number, so the model covers the form fields whose code points are below 256.  \<^verbatim>\<open>s.split(",")\<close> cuts at every comma and always returns at least
  one piece.  \<^verbatim>\<open>s.strip()\<close> removes the characters for which \<^verbatim>\<open>str.isspace\<close> holds from
  both ends.
\<close>

fun py_split :: "char \<Rightarrow> string \<Rightarrow> string list" where
  "py_split d [] = [[]]"
| "py_split d (c # cs) =
     (if c = d then [] # py_split d cs
      else (case py_split d cs of
              [] \<Rightarrow> [[c]]
            | w # ws \<Rightarrow> (c # w) # ws))"

definition whitespace :: "char list" where
  "whitespace =
     [CHR 0x09, CHR 0x0A, CHR 0x0B, CHR 0x0C, CHR 0x0D, CHR 0x1C, CHR 0x1D, CHR 0x1E,
      CHR 0x1F, CHR 0x20, CHR 0x85, CHR 0xA0]"

definition strip_chars :: "char list \<Rightarrow> string \<Rightarrow> string" where
  "strip_chars ws s = rev (dropWhile (\<lambda>c. c \<in> set ws) (rev (dropWhile (\<lambda>c. c \<in> set ws) s)))"

definition strip :: "string \<Rightarrow> string" where
  "strip s = strip_chars whitespace s"

text \<open>
  The comprehension \<^verbatim>\<open>[t.strip() for t in raw.split(",") if t.strip()]\<close>, which the
  handler applies to the villages, milk and distances fields.
\<close>

definition tokens :: "string \<Rightarrow> string list" where
  "tokens raw = filter (\<lambda>t. t \<noteq> []) (map strip (py_split CHR '','' raw))"

subsection \<open>Python floats: binary64 values\<close>

text \<open>
  A float is a finite binary64 number, a negative zero, an infinity (\<open>Infinity True\<close> is
  the negative one) or a NaN.  A finite number is kept as its exact rational value;
  \<open>Fin 0\<close> is the positive zero.
\<close>

datatype pyfloat = Fin rat | NegZero | Infinity bool | NaN

fun fval :: "pyfloat \<Rightarrow> rat" where
  "fval (Fin q) = q"
| "fval NegZero = 0"
| "fval (Infinity s) = 0"
| "fval NaN = 0"

fun sign_bit :: "pyfloat \<Rightarrow> bool" where
  "sign_bit (Fin q) = (q < 0)"
| "sign_bit NegZero = True"
| "sign_bit (Infinity s) = s"
| "sign_bit NaN = False"

fun is_inf :: "pyfloat \<Rightarrow> bool" where
  "is_inf (Infinity s) = True"
| "is_inf x = False"

fun is_zero :: "pyfloat \<Rightarrow> bool" where
  "is_zero (Fin q) = (q = 0)"
| "is_zero NegZero = True"
| "is_zero x = False"

text \<open>
  Rounding of a non-negative rational to the nearest binary64 magnitude, ties to even:
  the unit in the last place is \<open>2 ^ (e - 52)\<close> where \<open>2 ^ e \<le> a < 2 ^ (e + 1)\<close>, and
  \<open>e\<close> is not below the exponent -1022 of the subnormal numbers.
\<close>

function bit_length :: "int \<Rightarrow> int" where
  "bit_length n = (if n \<le> 0 then 0 else 1 + bit_length (n div 2))"
  by pat_completeness auto
termination
  by (relation "measure nat") auto

declare bit_length.simps [simp del]

definition pow2 :: "int \<Rightarrow> rat" where
  "pow2 e = (if 0 \<le> e then 2 ^ nat e else 1 / 2 ^ nat (- e))"

definition pow10 :: "int \<Rightarrow> rat" where
  "pow10 e = (if 0 \<le> e then 10 ^ nat e else 1 / 10 ^ nat (- e))"

definition round_half_even :: "rat \<Rightarrow> int" where
  "round_half_even q =
     (let f = \<lfloor>q\<rfloor>; d = q - of_int f
      in if d < 1 / 2 then f
         else if 1 / 2 < d then f + 1
         else if even f then f else f + 1)"

definition binade :: "rat \<Rightarrow> int" where
  "binade a =
     (if 1 \<le> a then bit_length \<lfloor>a\<rfloor> - 1
      else let k = bit_length \<lfloor>1 / a\<rfloor> - 1
           in if a = pow2 (- k) then - k else - k - 1)"

definition round_binary64 :: "rat \<Rightarrow> rat" where
  "round_binary64 a =
     (if a = 0 then 0
      else let e = max (binade a) (- 1022); u = pow2 (e - 52)
           in of_int (round_half_even (a / u)) * u)"

text \<open>
  The float with sign \<open>neg\<close> nearest to the magnitude \<open>a\<close>: it overflows to an infinity
  from \<open>2 ^ 1024\<close> on and underflows to a zero of the same sign.
\<close>

definition mk_float :: "bool \<Rightarrow> rat \<Rightarrow> pyfloat" where
  "mk_float neg a =
     (let m = round_binary64 a
      in if 2 ^ 1024 \<le> m then Infinity neg
         else if m = 0 then (if neg then NegZero else Fin 0)
         else Fin (if neg then - m else m))"

text \<open>The arithmetic the program uses: \<^verbatim>\<open>*\<close>, \<^verbatim>\<open>+\<close>, the comparisons, \<^verbatim>\<open>max\<close>, \<^verbatim>\<open>round\<close>, \<^verbatim>\<open>sum\<close>.\<close>

definition py_mul :: "pyfloat \<Rightarrow> pyfloat \<Rightarrow> pyfloat" where
  "py_mul x y =
     (if x = NaN \<or> y = NaN then NaN
      else if is_inf x \<or> is_inf y then
        (if is_zero x \<or> is_zero y then NaN else Infinity (sign_bit x \<noteq> sign_bit y))
      else mk_float (sign_bit x \<noteq> sign_bit y) \<bar>fval x * fval y\<bar>)"

definition py_add :: "pyfloat \<Rightarrow> pyfloat \<Rightarrow> pyfloat" where
  "py_add x y =
     (if x = NaN \<or> y = NaN then NaN
      else if is_inf x \<and> is_inf y then (if sign_bit x = sign_bit y then x else NaN)
      else if is_inf x then x
      else if is_inf y then y
      else let v = fval x + fval y
           in if v = 0 then (if sign_bit x \<and> sign_bit y then NegZero else Fin 0)
              else mk_float (v < 0) \<bar>v\<bar>)"

fun rank :: "pyfloat \<Rightarrow> int" where
  "rank (Infinity s) = (if s then - 1 else 1)"
| "rank x = 0"

definition py_lt :: "pyfloat \<Rightarrow> pyfloat \<Rightarrow> bool" where
  "py_lt x y =
     (x \<noteq> NaN \<and> y \<noteq> NaN \<and> (rank x < rank y \<or> rank x = rank y \<and> fval x < fval y))"

definition py_le :: "pyfloat \<Rightarrow> pyfloat \<Rightarrow> bool" where
  "py_le x y =
     (x \<noteq> NaN \<and> y \<noteq> NaN \<and> (rank x < rank y \<or> rank x = rank y \<and> fval x \<le> fval y))"

definition py_gt :: "pyfloat \<Rightarrow> pyfloat \<Rightarrow> bool" where
  "py_gt x y = py_lt y x"

definition py_ge :: "pyfloat \<Rightarrow> pyfloat \<Rightarrow> bool" where
  "py_ge x y = py_le y x"

text \<open>\<^verbatim>\<open>max(a, b)\<close> keeps its first argument unless the second is greater.\<close>

definition py_max :: "pyfloat \<Rightarrow> pyfloat \<Rightarrow> pyfloat" where
  "py_max a b = (if py_gt b a then b else a)"

text \<open>
  \<^verbatim>\<open>round(x, ndigits)\<close> on a float, for \<open>ndigits \<ge> 0\<close> (the program uses 2): the exact
  value is rounded to \<open>ndigits\<close> decimal places, ties to even, and the decimal is
  converted back to the nearest float.  Zeros, infinities and NaN round to themselves.
\<close>

definition py_round :: "pyfloat \<Rightarrow> nat \<Rightarrow> pyfloat" where
  "py_round x ndigits =
     (case x of
        Fin q \<Rightarrow> mk_float (q < 0) (of_int (round_half_even (\<bar>q\<bar> * 10 ^ ndigits)) / 10 ^ ndigits)
      | _ \<Rightarrow> x)"

text \<open>
  The built-in \<^verbatim>\<open>sum\<close> depends on the interpreter.  On the start value 0 and a list of
  floats, CPython up to 3.11 adds the items from left to right, each addition rounded
  as a float addition.  (The sum of an empty list is the integer 0, which is represented
  by the float of the same value; the handler never sums an empty list on its result
  path.)
\<close>

definition py_sum_sequential :: "pyfloat list \<Rightarrow> pyfloat" where
  "py_sum_sequential xs = foldl py_add (Fin 0) xs"

text \<open>
  CPython from 3.12 on adds the first item to 0 and then runs a compensated loop over
  the others: next to the running sum \<^verbatim>\<open>f_result\<close> it keeps the sum \<^verbatim>\<open>c\<close> of the rounding
  errors of the additions, and adds \<^verbatim>\<open>c\<close> at the end when it is finite and not zero:
  \<^verbatim>\<open>
  t = f_result + x
  if fabs(f_result) >= fabs(x): c += (f_result - t) + x
  else:                         c += (x - t) + f_result
  f_result = t
  \<close>
  The two functions agree when every addition is exact.  They differ as soon as one is
  not, and the difference can survive \<^verbatim>\<open>round(..., 2)\<close>: on 0.1, 0.2, 0.005 the rounded
  sums are 0.31 and 0.3 (see \<open>sums_differ\<close> below).
\<close>

definition py_neg :: "pyfloat \<Rightarrow> pyfloat" where
  "py_neg x =
     (case x of
        Fin q \<Rightarrow> if q = 0 then NegZero else Fin (- q)
      | NegZero \<Rightarrow> Fin 0
      | Infinity s \<Rightarrow> Infinity (\<not> s)
      | NaN \<Rightarrow> NaN)"

definition py_sub :: "pyfloat \<Rightarrow> pyfloat \<Rightarrow> pyfloat" where
  "py_sub x y = py_add x (py_neg y)"

definition py_fabs :: "pyfloat \<Rightarrow> pyfloat" where
  "py_fabs x =
     (case x of
        Fin q \<Rightarrow> Fin \<bar>q\<bar>
      | NegZero \<Rightarrow> Fin 0
      | Infinity s \<Rightarrow> Infinity False
      | NaN \<Rightarrow> NaN)"

fun is_finite :: "pyfloat \<Rightarrow> bool" where
  "is_finite (Fin q) = True"
| "is_finite NegZero = True"
| "is_finite x = False"

fun compensated_loop :: "pyfloat \<Rightarrow> pyfloat \<Rightarrow> pyfloat list \<Rightarrow> pyfloat" where
  "compensated_loop f_result c [] =
     (if \<not> is_zero c \<and> is_finite c then py_add f_result c else f_result)"
| "compensated_loop f_result c (x # xs) =
     (let t = py_add f_result x;
          c = (if py_ge (py_fabs f_result) (py_fabs x)
               then py_add c (py_add (py_sub f_result t) x)
               else py_add c (py_add (py_sub x t) f_result))
      in compensated_loop t c xs)"

definition py_sum_compensated :: "pyfloat list \<Rightarrow> pyfloat" where
  "py_sum_compensated xs =
     (case xs of
        [] \<Rightarrow> Fin 0
      | x # rest \<Rightarrow> compensated_loop (py_add (Fin 0) x) (Fin 0) rest)"

subsection \<open>Python floats: \<^verbatim>\<open>float(s)\<close>\<close>

text \<open>
  \<^verbatim>\<open>float(s)\<close> strips the string, accepts single underscores between digits, an
  optional sign, and then either a decimal number with an optional exponent, or one of
  \<^verbatim>\<open>inf\<close>, \<^verbatim>\<open>infinity\<close>, \<^verbatim>\<open>nan\<close> in any letter case.  The decimal is converted to the
  nearest float.  \<open>None\<close> stands for the \<^verbatim>\<open>ValueError\<close> raised on any other string.
  The characters \<^verbatim>\<open>float\<close> strips are those of \<^verbatim>\<open>str.strip\<close> without the four separators
  0x1C to 0x1F.
\<close>

definition float_whitespace :: "char list" where
  "float_whitespace =
     [CHR 0x09, CHR 0x0A, CHR 0x0B, CHR 0x0C, CHR 0x0D, CHR 0x20, CHR 0x85, CHR 0xA0]"

definition is_digit :: "char \<Rightarrow> bool" where
  "is_digit c = (c \<in> set ''0123456789'')"

definition digit_val :: "char \<Rightarrow> int" where
  "digit_val c = int (length (takeWhile (\<lambda>d. d \<noteq> c) ''0123456789''))"

definition digits_val :: "string \<Rightarrow> int" where
  "digits_val ds = foldl (\<lambda>n c. 10 * n + digit_val c) 0 ds"

definition ascii_lower :: "char \<Rightarrow> char" where
  "ascii_lower c =
     (case map_of (zip ''ABCDEFGHIJKLMNOPQRSTUVWXYZ'' ''abcdefghijklmnopqrstuvwxyz'') c of
        None \<Rightarrow> c
      | Some l \<Rightarrow> l)"

text \<open>
  An underscore is allowed only directly after a digit and directly before a digit;
  \<open>prev\<close> is the previous character.  The result is the string without underscores.
\<close>

fun drop_underscores :: "char \<Rightarrow> string \<Rightarrow> string option" where
  "drop_underscores prev [] = (if prev = CHR ''_'' then None else Some [])"
| "drop_underscores prev (c # cs) =
     (if c = CHR ''_'' then
        (if is_digit prev then drop_underscores c cs else None)
      else if prev = CHR ''_'' \<and> \<not> is_digit c then None
      else map_option ((#) c) (drop_underscores c cs))"

definition split_sign :: "string \<Rightarrow> bool \<times> string" where
  "split_sign s =
     (case s of
        [] \<Rightarrow> (False, [])
      | c # r \<Rightarrow>
          if c = CHR ''-'' then (True, r)
          else if c = CHR ''+'' then (False, r)
          else (False, s))"

definition parse_exponent :: "string \<Rightarrow> int option" where
  "parse_exponent s =
     (case s of
        [] \<Rightarrow> Some 0
      | c # r \<Rightarrow>
          if c = CHR ''e'' \<or> c = CHR ''E'' then
            (let (neg, ds) = split_sign r
             in if ds \<noteq> [] \<and> list_all is_digit ds
                then Some (if neg then - digits_val ds else digits_val ds)
                else None)
          else None)"

definition parse_decimal :: "string \<Rightarrow> rat option" where
  "parse_decimal s =
     (let ip = takeWhile is_digit s;
          r1 = dropWhile is_digit s;
          (fp, r2) =
            (case r1 of
               [] \<Rightarrow> ([], [])
             | c # r \<Rightarrow>
                 if c = CHR ''.'' then (takeWhile is_digit r, dropWhile is_digit r)
                 else ([], r1))
      in if ip = [] \<and> fp = [] then None
         else (case parse_exponent r2 of
                 None \<Rightarrow> None
               | Some x \<Rightarrow> Some (of_int (digits_val (ip @ fp)) * pow10 (x - int (length fp)))))"

definition parse_inf_nan :: "bool \<Rightarrow> string \<Rightarrow> pyfloat option" where
  "parse_inf_nan neg s =
     (let l = map ascii_lower s
      in if l = ''inf'' \<or> l = ''infinity'' then Some (Infinity neg)
         else if l = ''nan'' then Some NaN
         else None)"

definition py_float :: "string \<Rightarrow> pyfloat option" where
  "py_float s =
     (case drop_underscores CHR 0x00 (strip_chars float_whitespace s) of
        None \<Rightarrow> None
      | Some t \<Rightarrow>
          (let (neg, r) = split_sign t
           in case parse_decimal r of
                Some q \<Rightarrow> Some (mk_float neg q)
              | None \<Rightarrow> parse_inf_nan neg r))"

text \<open>The literal \<^verbatim>\<open>1.05\<close> of \<^verbatim>\<open>predict_supply\<close> and the literal \<^verbatim>\<open>0.0\<close>.\<close>

definition lit_1_05 :: pyfloat where
  "lit_1_05 = Fin (4728779608739021 / 4503599627370496)"

definition lit_0_0 :: pyfloat where
  "lit_0_0 = Fin 0"

subsection \<open>The program: prediction and route\<close>

text \<open>
  \<^verbatim>\<open>predict_supply\<close> is the comprehension
  \<^verbatim>\<open>[round(max(0.0, val * 1.05), 2) for val in milk_data]\<close>.
  \<^verbatim>\<open>optimize_route\<close> returns the villages as given, with the rounded sum of the
  distances when there are distances.  The program calls the built-in \<^verbatim>\<open>sum\<close> of the
  interpreter that runs it; the model takes this function as the parameter
  \<open>builtin_sum\<close> (\<open>py_sum_sequential\<close> or \<open>py_sum_compensated\<close> on CPython).
\<close>

definition predict_supply :: "pyfloat list \<Rightarrow> pyfloat list" where
  "predict_supply milk_data =
     map (\<lambda>val. py_round (py_max lit_0_0 (py_mul val lit_1_05)) 2) milk_data"

definition optimize_route ::
  "(pyfloat list \<Rightarrow> pyfloat) \<Rightarrow> string list \<Rightarrow> pyfloat list option \<Rightarrow>
     string list \<times> pyfloat option" where
  "optimize_route builtin_sum villages distances =
     (case distances of
        Some ds \<Rightarrow> (let total = py_round (builtin_sum ds) 2 in (villages, Some total))
      | None \<Rightarrow> (villages, None))"

subsection \<open>The program: rendering\<close>

text \<open>
  A message is a pair of its type (\<^verbatim>\<open>"error"\<close> or \<^verbatim>\<open>"success"\<close>) and its text.  The
  form is the dictionary built from the request body.
\<close>

type_synonym message = "string \<times> string"

type_synonym form = "string \<Rightarrow> string option"

definition form_get :: "form \<Rightarrow> string \<Rightarrow> string \<Rightarrow> string" where
  "form_get form k d = (case form k of None \<Rightarrow> d | Some v \<Rightarrow> v)"

text \<open>
  The keyword arguments of \<^verbatim>\<open>render_page\<close>, each under its name with the prefix \<open>rp_\<close>;
  an argument left out is \<open>None\<close>.
\<close>

record page_args =
  rp_result :: bool
  rp_villages_list :: "string list option"
  rp_predictions :: "pyfloat list option"
  rp_route :: "string list option"
  rp_total_distance :: "pyfloat option"
  rp_capacity :: "pyfloat option"
  rp_capacity_ok :: "bool option"
  rp_total_predicted :: "pyfloat option"
  rp_form_values :: form
  rp_messages :: "message list"

text \<open>
  \<^verbatim>\<open>html.escape\<close> replaces the five characters that are special in HTML.
\<close>

definition escape_char :: "char \<Rightarrow> string" where
  "escape_char c =
     (if c = CHR ''&'' then ''&amp;''
      else if c = CHR ''<'' then ''&lt;''
      else if c = CHR ''>'' then ''&gt;''
      else if c = CHR 0x22 then ''&quot;''
      else if c = CHR 0x27 then ''&#x27;''
      else [c])"

definition html_escape :: "string \<Rightarrow> string" where
  "html_escape s = concat (map escape_char s)"

text \<open>
  The page is the template with its holes filled.  The model keeps what fills the
  holes and leaves the fixed markup out: each banner of \<^verbatim>\<open>make_messages_html\<close> is its
  class and its escaped text, the four inputs echo the escaped form values, and the
  result section is either empty (\<open>None\<close>) or holds the rows of the predicted supply,
  the route, the total distance line when there is one, and the capacity block when
  there is one (total predicted, capacity, verdict).
\<close>

record result_view =
  view_items :: "(string \<times> pyfloat) list"
  view_route :: "string list"
  view_total_distance :: "pyfloat option"
  view_capacity :: "(pyfloat option \<times> pyfloat \<times> string) option"

record page =
  page_messages :: "(string \<times> string) list"
  page_villages :: string
  page_milk_data :: string
  page_distances :: string
  page_capacity :: string
  page_result :: "result_view option"

definition make_messages_html :: "message list \<Rightarrow> (string \<times> string) list" where
  "make_messages_html msgs =
     map (\<lambda>(typ, m). (if typ = ''success'' then ''success'' else ''alert'', html_escape m)) msgs"

datatype py_error = TypeError

text \<open>
  With \<^verbatim>\<open>result=True\<close> the lists are iterated, which raises \<^verbatim>\<open>TypeError\<close> when one of
  them was left out.
\<close>

definition render_page :: "page_args \<Rightarrow> py_error + page" where
  "render_page a =
     (let messages_html = make_messages_html (rp_messages a);
          fill = (\<lambda>result_section.
            \<lparr>page_messages = messages_html,
             page_villages = html_escape (form_get (rp_form_values a) ''villages'' []),
             page_milk_data = html_escape (form_get (rp_form_values a) ''milk_data'' []),
             page_distances = html_escape (form_get (rp_form_values a) ''distances'' []),
             page_capacity = html_escape (form_get (rp_form_values a) ''capacity'' []),
             page_result = result_section\<rparr>)
      in if rp_result a then
           (case (rp_villages_list a, rp_predictions a, rp_route a) of
              (Some vs, Some ps, Some r) \<Rightarrow>
                (let items = map (\<lambda>(v, p). (html_escape v, p)) (zip vs ps);
                     route_html = map html_escape r;
                     capacity_html =
                       (case rp_capacity a of
                          None \<Rightarrow> None
                        | Some c \<Rightarrow>
                            Some (rp_total_predicted a, c,
                                  if rp_capacity_ok a = Some True then ''Sufficient''
                                  else ''Insufficient''))
                 in Inr (fill (Some \<lparr>view_items = items, view_route = route_html,
                                       view_total_distance = rp_total_distance a,
                                       view_capacity = capacity_html\<rparr>)))
            | _ \<Rightarrow> Inl TypeError)
         else Inr (fill None))"

subsection \<open>The program: validation\<close>

definition msg_villages :: string where
  "msg_villages = ''Please provide at least one village name.''"

definition msg_milk_missing :: string where
  "msg_milk_missing = ''Please provide milk collection numbers (comma separated).''"

definition msg_milk_numbers :: string where
  "msg_milk_numbers = ''Milk values must be numbers (e.g. 120, 85.5).''"

definition msg_milk_count :: string where
  "msg_milk_count = ''Number of milk data entries does not match number of villages. Provide one value per village or one value to broadcast.''"

definition msg_distance_numbers :: string where
  "msg_distance_numbers = ''Distance values must be numbers (e.g. 5, 8.2).''"

definition msg_distance_count :: string where
  "msg_distance_count = ''If you provide distances, provide the same number as villages.''"

definition msg_capacity :: string where
  "msg_capacity = ''Vehicle capacity must be a positive number.''"

definition msg_success :: string where
  "msg_success = ''Result generated successfully.''"

text \<open>
  \<^verbatim>\<open>[float(x) for x in toks]\<close> inside \<^verbatim>\<open>try\<close>: \<open>None\<close> when some \<^verbatim>\<open>float(x)\<close> raises
  \<^verbatim>\<open>ValueError\<close>.
\<close>

definition float_list :: "string list \<Rightarrow> pyfloat list option" where
  "float_list toks = those (map py_float toks)"

text \<open>
  The validation part of \<^verbatim>\<open>do_POST\<close> is a sequence of four blocks, each under its own
  comment in the source.  Each block is a function of the form, of the variables it
  reads, and of the list \<^verbatim>\<open>messages\<close>, which it returns with its own messages appended.
\<close>

definition parse_villages :: "form \<Rightarrow> message list \<Rightarrow> string list \<times> message list" where
  "parse_villages form messages =
     (let raw_villages = form_get form ''villages'' [];
          villages = tokens raw_villages
      in if villages = [] then (villages, messages @ [(''error'', msg_villages)])
         else (villages, messages))"

definition parse_milk_data ::
  "form \<Rightarrow> string list \<Rightarrow> message list \<Rightarrow> pyfloat list \<times> message list" where
  "parse_milk_data form villages messages =
     (let raw_milk = form_get form ''milk_data'' [];
          milk_tokens = tokens raw_milk;
          messages =
            (if milk_tokens = [] then messages @ [(''error'', msg_milk_missing)]
             else messages);
          (milk_data, messages) =
            (if milk_tokens \<noteq> [] then
               (case float_list milk_tokens of
                  Some vals \<Rightarrow> (vals, messages)
                | None \<Rightarrow> ([], messages @ [(''error'', msg_milk_numbers)]))
             else ([], messages))
      in if villages \<noteq> [] \<and> milk_data \<noteq> [] then
           (if length milk_data = 1 \<and> 1 < length villages
            then (concat (replicate (length villages) milk_data), messages)
            else if length milk_data \<noteq> length villages
            then (milk_data, messages @ [(''error'', msg_milk_count)])
            else (milk_data, messages))
         else (milk_data, messages))"

definition parse_distances ::
  "form \<Rightarrow> string list \<Rightarrow> message list \<Rightarrow> pyfloat list option \<times> message list" where
  "parse_distances form villages messages =
     (let raw_distances = form_get form ''distances'' []
      in if strip raw_distances \<noteq> [] then
           (let dist_tokens = tokens raw_distances
            in case float_list dist_tokens of
                 None \<Rightarrow> (None, messages @ [(''error'', msg_distance_numbers)])
               | Some dist_vals \<Rightarrow>
                   if length dist_vals \<noteq> length villages
                   then (None, messages @ [(''error'', msg_distance_count)])
                   else (Some dist_vals, messages))
         else (None, messages))"

text \<open>
  In the capacity block the variable \<^verbatim>\<open>vehicle_capacity\<close> is assigned before the
  comparison, so a capacity that parses keeps its value also when the error is added.
\<close>

definition parse_capacity :: "form \<Rightarrow> message list \<Rightarrow> pyfloat option \<times> message list" where
  "parse_capacity form messages =
     (let raw_capacity = strip (form_get form ''capacity'' [])
      in if raw_capacity \<noteq> [] then
           (case py_float raw_capacity of
              None \<Rightarrow> (None, messages @ [(''error'', msg_capacity)])
            | Some vehicle_capacity \<Rightarrow>
                if py_le vehicle_capacity (Fin 0)
                then (Some vehicle_capacity, messages @ [(''error'', msg_capacity)])
                else (Some vehicle_capacity, messages))
         else (None, messages))"

text \<open>
  The state of \<^verbatim>\<open>do_POST\<close> when it reaches the comment
  \<^verbatim>\<open># If any errors, re-render with messages\<close>: its local variables \<^verbatim>\<open>villages\<close>,
  \<^verbatim>\<open>milk_data\<close>, \<^verbatim>\<open>distances\<close>, \<^verbatim>\<open>vehicle_capacity\<close> and \<^verbatim>\<open>messages\<close>.
\<close>

record parsed =
  p_villages :: "string list"
  p_milk_data :: "pyfloat list"
  p_distances :: "pyfloat list option"
  p_vehicle_capacity :: "pyfloat option"
  p_messages :: "message list"

definition validate :: "form \<Rightarrow> parsed" where
  "validate form =
     (let messages = [];
          (villages, messages) = parse_villages form messages;
          (milk_data, messages) = parse_milk_data form villages messages;
          (distances, messages) = parse_distances form villages messages;
          (vehicle_capacity, messages) = parse_capacity form messages
      in \<lparr>p_villages = villages, p_milk_data = milk_data, p_distances = distances,
          p_vehicle_capacity = vehicle_capacity, p_messages = messages\<rparr>)"

text \<open>The list \<^verbatim>\<open>err_msgs\<close>: the texts of the messages of type \<^verbatim>\<open>"error"\<close>.\<close>

definition err_msgs :: "form \<Rightarrow> string list" where
  "err_msgs form = map snd (filter (\<lambda>(t, m). t = ''error'') (p_messages (validate form)))"

subsection \<open>The program: the handler\<close>

text \<open>
  \<^verbatim>\<open>do_POST\<close> from the decoded form to the arguments of its call of \<^verbatim>\<open>render_page\<close>, and
  \<open>response\<close> to the page it writes, both for the built-in \<^verbatim>\<open>sum\<close> of the interpreter.
\<close>

definition do_POST :: "(pyfloat list \<Rightarrow> pyfloat) \<Rightarrow> form \<Rightarrow> page_args" where
  "do_POST builtin_sum form =
     (let p = validate form;
          villages = p_villages p;
          milk_data = p_milk_data p;
          distances = p_distances p;
          vehicle_capacity = p_vehicle_capacity p;
          errs = err_msgs form
      in if errs \<noteq> [] then
           \<lparr>rp_result = False, rp_villages_list = None, rp_predictions = None,
            rp_route = None, rp_total_distance = None, rp_capacity = None,
            rp_capacity_ok = None, rp_total_predicted = None, rp_form_values = form,
            rp_messages = map (\<lambda>m. (''error'', m)) errs\<rparr>
         else
           (let predictions = predict_supply milk_data;
                (route_order, total_distance) =
                  optimize_route builtin_sum villages distances;
                total_predicted = py_round (builtin_sum predictions) 2;
                capacity_ok =
                  (case vehicle_capacity of
                     None \<Rightarrow> None
                   | Some c \<Rightarrow> Some (py_ge c total_predicted))
            in \<lparr>rp_result = True, rp_villages_list = Some villages,
                rp_predictions = Some predictions, rp_route = Some route_order,
                rp_total_distance = total_distance, rp_capacity = vehicle_capacity,
                rp_capacity_ok = capacity_ok, rp_total_predicted = Some total_predicted,
                rp_form_values = form, rp_messages = [(''success'', msg_success)]\<rparr>))"

definition response :: "(pyfloat list \<Rightarrow> pyfloat) \<Rightarrow> form \<Rightarrow> py_error + page" where
  "response builtin_sum form = render_page (do_POST builtin_sum form)"

subsection \<open>Inputs of the scenarios\<close>

text \<open>The forms of the scenarios used below to run the handler on concrete inputs.\<close>

definition scenario_A :: form where
  "scenario_A = [''villages'' \<mapsto> ''A, B'', ''milk_data'' \<mapsto> ''100, 200'']"

definition scenario_B :: form where
  "scenario_B = [''villages'' \<mapsto> ''A, B, C'', ''milk_data'' \<mapsto> ''50'']"

definition scenario_C :: form where
  "scenario_C =
     [''villages'' \<mapsto> ''A, B'', ''milk_data'' \<mapsto> ''100, 200'', ''distances'' \<mapsto> ''5, 8'']"

definition scenario_D :: form where
  "scenario_D = [''villages'' \<mapsto> ''A'', ''milk_data'' \<mapsto> ''100'', ''capacity'' \<mapsto> ''90'']"

definition scenario_E :: form where
  "scenario_E = [''milk_data'' \<mapsto> ''100'']"

definition scenario_F :: form where
  "scenario_F = [''villages'' \<mapsto> ''A,B'', ''milk_data'' \<mapsto> ''abc,200'']"

text \<open>Further inputs: a negative milk value, a capacity that is not a number, a form
  without villages but with distances, a form that breaks four rules, and scenario B
  with the milk value written once per village.\<close>

definition form_negative_milk :: form where
  "form_negative_milk = [''villages'' \<mapsto> ''A, B'', ''milk_data'' \<mapsto> ''-5, 10'']"

definition form_capacity_nan :: form where
  "form_capacity_nan =
     [''villages'' \<mapsto> ''A'', ''milk_data'' \<mapsto> ''100'', ''capacity'' \<mapsto> ''nan'']"

definition form_distances_only :: form where
  "form_distances_only = [''milk_data'' \<mapsto> ''100'', ''distances'' \<mapsto> ''5, 8'']"

definition form_four_errors :: form where
  "form_four_errors =
     [''villages'' \<mapsto> '' , '', ''milk_data'' \<mapsto> ''abc'', ''distances'' \<mapsto> ''5, x'',
      ''capacity'' \<mapsto> ''-1'']"

text \<open>Two inputs on which an addition is inexact, so that the two sums differ.\<close>

definition form_inexact_distances :: form where
  "form_inexact_distances =
     [''villages'' \<mapsto> ''A, B, C'', ''milk_data'' \<mapsto> ''100'',
      ''distances'' \<mapsto> ''0.1, 0.2, 0.005'']"

definition form_inexact_total :: form where
  "form_inexact_total =
     [''villages'' \<mapsto> ''A, B, C'', ''milk_data'' \<mapsto> ''1e16, 1, 1'',
      ''capacity'' \<mapsto> ''10500000000000002'']"

definition scenario_B_repeated :: form where
  "scenario_B_repeated = scenario_B(''milk_data'' \<mapsto> ''50,50,50'')"

subsection \<open>Auxiliary notions for the proofs\<close>

text \<open>
  The error texts of a message list, the milk values as parsed before the broadcast
  (empty when a token is not a number), and the floats that compare \<^verbatim>\<open>>= 0\<close>.
\<close>

definition errors_of :: "message list \<Rightarrow> string list" where
  "errors_of ms = map snd (filter (\<lambda>(t, m). t = ''error'') ms)"

definition milk_parsed :: "form \<Rightarrow> pyfloat list" where
  "milk_parsed f =
     (case float_list (tokens (form_get f ''milk_data'' [])) of None \<Rightarrow> [] | Some vals \<Rightarrow> vals)"


section \<open>Evaluation on concrete inputs\<close>

lemma floor_rat_numeral [simp]:
  "\<lfloor>numeral a / numeral b :: rat\<rfloor> = numeral a div numeral b"
  "\<lfloor>1 / numeral b :: rat\<rfloor> = 1 div numeral b"
proof -
  show "\<lfloor>numeral a / numeral b :: rat\<rfloor> = numeral a div numeral b"
    by (metis floor_divide_of_int_eq of_int_numeral)
  show "\<lfloor>1 / numeral b :: rat\<rfloor> = 1 div numeral b"
    by (metis floor_divide_of_int_eq of_int_numeral of_int_1)
qed

lemma bit_length_numeral:
  "bit_length (numeral k) = 1 + bit_length (numeral k div 2)"
  "bit_length 0 = 0"
  "bit_length 1 = 1"
  by (subst bit_length.simps, simp)+

lemmas float_eval = mk_float_def round_binary64_def binade_def round_half_even_def pow2_def
  pow10_def Let_def bit_length_numeral

lemmas string_eval = tokens_def strip_def strip_chars_def whitespace_def float_whitespace_def

lemmas parse_eval = py_float_def split_sign_def parse_decimal_def parse_exponent_def
  parse_inf_nan_def is_digit_def digit_val_def digits_val_def ascii_lower_def

text \<open>The literal 1.05 is the float that \<^verbatim>\<open>float\<close> reads from its decimal.\<close>

lemma py_float_1_05: "py_float ''1.05'' = Some lit_1_05"
  by (simp add: string_eval parse_eval float_eval lit_1_05_def)

section \<open>The validation blocks\<close>

lemma msgs_distinct:
  "distinct [msg_villages, msg_milk_missing, msg_milk_numbers, msg_milk_count,
     msg_distance_numbers, msg_distance_count, msg_capacity]"
  by (simp add: msg_villages_def msg_milk_missing_def msg_milk_numbers_def msg_milk_count_def
      msg_distance_numbers_def msg_distance_count_def msg_capacity_def)

lemma errors_of_simps:
  "errors_of [] = []"
  "errors_of (ms @ ns) = errors_of ms @ errors_of ns"
  "errors_of [(''error'', m)] = [m]"
  by (simp_all add: errors_of_def)

lemma errors_of_if:
  "errors_of (if c then [(''error'', m)] else []) = (if c then [m] else [])"
  by (simp add: errors_of_def)

lemma float_list_Nil [simp]: "float_list [] = Some []"
  by (simp add: float_list_def)

lemma those_map_length: "those (map g ts) = Some vs \<Longrightarrow> length vs = length ts"
  by (induction ts arbitrary: vs) (auto split: option.splits)

lemma float_list_length: "float_list ts = Some vs \<Longrightarrow> length vs = length ts"
  unfolding float_list_def by (rule those_map_length)

lemma those_replicate:
  "those (replicate n x) = (if n = 0 then Some [] else map_option (replicate n) x)"
  by (induction n) (auto split: option.splits)

lemma float_list_replicate:
  "0 < n \<Longrightarrow> float_list (replicate n t) = map_option (replicate n) (py_float t)"
  by (simp add: float_list_def those_replicate)

lemma parse_villages_fst: "fst (parse_villages f ms) = tokens (form_get f ''villages'' [])"
  by (simp add: parse_villages_def Let_def)

lemma parse_villages_snd:
  "snd (parse_villages f ms) =
     ms @ (if tokens (form_get f ''villages'' []) = [] then [(''error'', msg_villages)] else [])"
  by (simp add: parse_villages_def Let_def)

lemma parse_milk_data_fst:
  "fst (parse_milk_data f vs ms) =
     (if vs \<noteq> [] \<and> length (milk_parsed f) = 1 \<and> 1 < length vs
      then concat (replicate (length vs) (milk_parsed f))
      else milk_parsed f)"
  by (auto simp add: parse_milk_data_def Let_def milk_parsed_def split: option.split)

lemma parse_milk_data_snd:
  "snd (parse_milk_data f vs ms) =
     ms @
     (if tokens (form_get f ''milk_data'' []) = [] then [(''error'', msg_milk_missing)] else []) @
     (if tokens (form_get f ''milk_data'' []) \<noteq> [] \<and>
         float_list (tokens (form_get f ''milk_data'' [])) = None
      then [(''error'', msg_milk_numbers)] else []) @
     (if vs \<noteq> [] \<and> milk_parsed f \<noteq> [] \<and> \<not> (length (milk_parsed f) = 1 \<and> 1 < length vs) \<and>
         length (milk_parsed f) \<noteq> length vs
      then [(''error'', msg_milk_count)] else [])"
  by (auto simp add: parse_milk_data_def Let_def milk_parsed_def split: option.split)

lemma parse_distances_fst:
  "fst (parse_distances f vs ms) =
     (if strip (form_get f ''distances'' []) \<noteq> [] then
        (case float_list (tokens (form_get f ''distances'' [])) of
           None \<Rightarrow> None
         | Some ds \<Rightarrow> if length ds \<noteq> length vs then None else Some ds)
      else None)"
  by (auto simp add: parse_distances_def Let_def split: option.split)

lemma parse_distances_snd:
  "snd (parse_distances f vs ms) =
     ms @
     (if strip (form_get f ''distances'' []) \<noteq> [] \<and>
         float_list (tokens (form_get f ''distances'' [])) = None
      then [(''error'', msg_distance_numbers)] else []) @
     (if strip (form_get f ''distances'' []) \<noteq> [] \<and>
         (\<exists>ds. float_list (tokens (form_get f ''distances'' [])) = Some ds \<and>
               length ds \<noteq> length vs)
      then [(''error'', msg_distance_count)] else [])"
  by (auto simp add: parse_distances_def Let_def split: option.split)

lemma parse_capacity_fst:
  "fst (parse_capacity f ms) =
     (if strip (form_get f ''capacity'' []) \<noteq> []
      then py_float (strip (form_get f ''capacity'' []))
      else None)"
  by (auto simp add: parse_capacity_def Let_def split: option.split)

lemma parse_capacity_snd:
  "snd (parse_capacity f ms) =
     ms @
     (if strip (form_get f ''capacity'' []) \<noteq> [] \<and>
         (case py_float (strip (form_get f ''capacity'' [])) of
            None \<Rightarrow> True
          | Some c \<Rightarrow> py_le c (Fin 0))
      then [(''error'', msg_capacity)] else [])"
  by (auto simp add: parse_capacity_def Let_def split: option.split)

lemma validate_unfold:
  "validate f =
     \<lparr>p_villages = fst (parse_villages f []),
      p_milk_data = fst (parse_milk_data f (fst (parse_villages f [])) (snd (parse_villages f []))),
      p_distances = fst (parse_distances f (fst (parse_villages f []))
         (snd (parse_milk_data f (fst (parse_villages f [])) (snd (parse_villages f []))))),
      p_vehicle_capacity = fst (parse_capacity f (snd (parse_distances f (fst (parse_villages f []))
         (snd (parse_milk_data f (fst (parse_villages f [])) (snd (parse_villages f []))))))),
      p_messages = snd (parse_capacity f (snd (parse_distances f (fst (parse_villages f []))
         (snd (parse_milk_data f (fst (parse_villages f [])) (snd (parse_villages f [])))))))\<rparr>"
  by (simp add: validate_def Let_def split_beta)

text \<open>The variables of the handler after validation, as functions of the form.\<close>

lemma p_villages_validate:
  "p_villages (validate f) = tokens (form_get f ''villages'' [])"
  by (simp add: validate_unfold parse_villages_fst)

lemma p_milk_data_validate:
  "p_milk_data (validate f) =
     (if tokens (form_get f ''villages'' []) \<noteq> [] \<and> length (milk_parsed f) = 1 \<and>
         1 < length (tokens (form_get f ''villages'' []))
      then concat (replicate (length (tokens (form_get f ''villages'' []))) (milk_parsed f))
      else milk_parsed f)"
  by (simp add: validate_unfold parse_villages_fst parse_milk_data_fst)

lemma p_distances_validate:
  "p_distances (validate f) =
     (if strip (form_get f ''distances'' []) \<noteq> [] then
        (case float_list (tokens (form_get f ''distances'' [])) of
           None \<Rightarrow> None
         | Some ds \<Rightarrow>
             if length ds \<noteq> length (tokens (form_get f ''villages'' [])) then None
             else Some ds)
      else None)"
  by (simp add: validate_unfold parse_villages_fst parse_distances_fst)

lemma p_vehicle_capacity_validate:
  "p_vehicle_capacity (validate f) =
     (if strip (form_get f ''capacity'' []) \<noteq> []
      then py_float (strip (form_get f ''capacity'' []))
      else None)"
  by (simp add: validate_unfold parse_capacity_fst)

lemma p_messages_validate:
  "p_messages (validate f) =
     ((([] @
     (if tokens (form_get f ''villages'' []) = [] then [(''error'', msg_villages)] else [])) @
     (if tokens (form_get f ''milk_data'' []) = [] then [(''error'', msg_milk_missing)] else []) @
     (if tokens (form_get f ''milk_data'' []) \<noteq> [] \<and>
         float_list (tokens (form_get f ''milk_data'' [])) = None
      then [(''error'', msg_milk_numbers)] else []) @
     (if tokens (form_get f ''villages'' []) \<noteq> [] \<and> milk_parsed f \<noteq> [] \<and>
         \<not> (length (milk_parsed f) = 1 \<and> 1 < length (tokens (form_get f ''villages'' []))) \<and>
         length (milk_parsed f) \<noteq> length (tokens (form_get f ''villages'' []))
      then [(''error'', msg_milk_count)] else [])) @
     (if strip (form_get f ''distances'' []) \<noteq> [] \<and>
         float_list (tokens (form_get f ''distances'' [])) = None
      then [(''error'', msg_distance_numbers)] else []) @
     (if strip (form_get f ''distances'' []) \<noteq> [] \<and>
         (\<exists>ds. float_list (tokens (form_get f ''distances'' [])) = Some ds \<and>
               length ds \<noteq> length (tokens (form_get f ''villages'' [])))
      then [(''error'', msg_distance_count)] else [])) @
     (if strip (form_get f ''capacity'' []) \<noteq> [] \<and>
         (case py_float (strip (form_get f ''capacity'' [])) of
            None \<Rightarrow> True
          | Some c \<Rightarrow> py_le c (Fin 0))
      then [(''error'', msg_capacity)] else [])"
  unfolding validate_unfold parsed.simps parse_capacity_snd parse_distances_snd
    parse_milk_data_snd parse_villages_snd parse_villages_fst
  by (rule refl)

lemma err_msgs_validate:
  "err_msgs f =
     (if tokens (form_get f ''villages'' []) = [] then [msg_villages] else []) @
     (if tokens (form_get f ''milk_data'' []) = [] then [msg_milk_missing] else []) @
     (if tokens (form_get f ''milk_data'' []) \<noteq> [] \<and>
         float_list (tokens (form_get f ''milk_data'' [])) = None
      then [msg_milk_numbers] else []) @
     (if tokens (form_get f ''villages'' []) \<noteq> [] \<and> milk_parsed f \<noteq> [] \<and>
         \<not> (length (milk_parsed f) = 1 \<and> 1 < length (tokens (form_get f ''villages'' []))) \<and>
         length (milk_parsed f) \<noteq> length (tokens (form_get f ''villages'' []))
      then [msg_milk_count] else []) @
     (if strip (form_get f ''distances'' []) \<noteq> [] \<and>
         float_list (tokens (form_get f ''distances'' [])) = None
      then [msg_distance_numbers] else []) @
     (if strip (form_get f ''distances'' []) \<noteq> [] \<and>
         (\<exists>ds. float_list (tokens (form_get f ''distances'' [])) = Some ds \<and>
               length ds \<noteq> length (tokens (form_get f ''villages'' [])))
      then [msg_distance_count] else []) @
     (if strip (form_get f ''capacity'' []) \<noteq> [] \<and>
         (case py_float (strip (form_get f ''capacity'' [])) of
            None \<Rightarrow> True
          | Some c \<Rightarrow> py_le c (Fin 0))
      then [msg_capacity] else [])"
proof -
  have "err_msgs f = errors_of (p_messages (validate f))"
    by (simp only: err_msgs_def errors_of_def)
  then show ?thesis
    unfolding p_messages_validate
    by (simp only: errors_of_simps errors_of_if append_Nil append_assoc)
qed

section \<open>Floats that are not negative\<close>












section \<open>The handler after validation\<close>

lemma do_POST_errors:
  "err_msgs f \<noteq> [] \<Longrightarrow>
     do_POST sm f =
       \<lparr>rp_result = False, rp_villages_list = None, rp_predictions = None,
        rp_route = None, rp_total_distance = None, rp_capacity = None,
        rp_capacity_ok = None, rp_total_predicted = None, rp_form_values = f,
        rp_messages = map (\<lambda>m. (''error'', m)) (err_msgs f)\<rparr>"
  by (simp add: do_POST_def Let_def)

lemma do_POST_result:
  "err_msgs f = [] \<Longrightarrow>
     do_POST sm f =
       \<lparr>rp_result = True, rp_villages_list = Some (p_villages (validate f)),
        rp_predictions = Some (predict_supply (p_milk_data (validate f))),
        rp_route = Some (p_villages (validate f)),
        rp_total_distance = map_option (\<lambda>ds. py_round (sm ds) 2) (p_distances (validate f)),
        rp_capacity = p_vehicle_capacity (validate f),
        rp_capacity_ok =
          map_option (\<lambda>c. py_ge c (py_round (sm (predict_supply (p_milk_data (validate f)))) 2))
            (p_vehicle_capacity (validate f)),
        rp_total_predicted = Some (py_round (sm (predict_supply (p_milk_data (validate f)))) 2),
        rp_form_values = f, rp_messages = [(''success'', msg_success)]\<rparr>"
  by (simp add: do_POST_def Let_def optimize_route_def split: option.split)

lemma valid_milk_parsed:
  assumes "err_msgs f = []"
  shows "tokens (form_get f ''villages'' []) \<noteq> []"
    and "float_list (tokens (form_get f ''milk_data'' [])) = Some (milk_parsed f)"
    and "milk_parsed f \<noteq> []"
    and "length (milk_parsed f) = 1 \<and> 1 < length (tokens (form_get f ''villages'' [])) \<or>
         length (milk_parsed f) = length (tokens (form_get f ''villages'' []))"
proof -
  from assms show v: "tokens (form_get f ''villages'' []) \<noteq> []"
    unfolding err_msgs_validate by (simp split: if_splits)
  from assms have t: "tokens (form_get f ''milk_data'' []) \<noteq> []"
    unfolding err_msgs_validate by (simp split: if_splits)
  from assms t have "float_list (tokens (form_get f ''milk_data'' [])) \<noteq> None"
    unfolding err_msgs_validate by (simp split: if_splits)
  then obtain vals where vals: "float_list (tokens (form_get f ''milk_data'' [])) = Some vals"
    by blast
  then show m: "float_list (tokens (form_get f ''milk_data'' [])) = Some (milk_parsed f)"
    by (simp add: milk_parsed_def)
  from float_list_length[OF m] t show n: "milk_parsed f \<noteq> []"
    by auto
  from assms v n show "length (milk_parsed f) = 1 \<and> 1 < length (tokens (form_get f ''villages'' [])) \<or>
         length (milk_parsed f) = length (tokens (form_get f ''villages'' []))"
    unfolding err_msgs_validate by (simp split: if_splits)
qed

lemma valid_lengths:
  assumes "err_msgs f = []"
  shows "length (p_milk_data (validate f)) = length (p_villages (validate f))"
  using valid_milk_parsed[OF assms]
  by (auto simp add: p_milk_data_validate p_villages_validate length_concat sum_list_replicate
      length_Suc_conv)

section \<open>Membership in the error list\<close>

lemma in_set_if_single: "x \<in> set (if c then [m] else []) \<longleftrightarrow> c \<and> x = m"
  by auto

lemma msgs_distinct_rev:
  "distinct (rev [msg_villages, msg_milk_missing, msg_milk_numbers, msg_milk_count,
     msg_distance_numbers, msg_distance_count, msg_capacity])"
  using msgs_distinct by (simp only: distinct_rev)

lemmas msgs_neq = msgs_distinct[simplified] msgs_distinct_rev[simplified]

lemma err_msgs_membership:
  "(msg_villages \<in> set (err_msgs f) \<longleftrightarrow> tokens (form_get f ''villages'' []) = []) \<and>
   (msg_milk_missing \<in> set (err_msgs f) \<longleftrightarrow> tokens (form_get f ''milk_data'' []) = []) \<and>
   (msg_milk_numbers \<in> set (err_msgs f) \<longleftrightarrow>
      tokens (form_get f ''milk_data'' []) \<noteq> [] \<and>
      float_list (tokens (form_get f ''milk_data'' [])) = None) \<and>
   (msg_milk_count \<in> set (err_msgs f) \<longleftrightarrow>
      tokens (form_get f ''villages'' []) \<noteq> [] \<and> milk_parsed f \<noteq> [] \<and>
      \<not> (length (milk_parsed f) = 1 \<and> 1 < length (tokens (form_get f ''villages'' []))) \<and>
      length (milk_parsed f) \<noteq> length (tokens (form_get f ''villages'' []))) \<and>
   (msg_distance_numbers \<in> set (err_msgs f) \<longleftrightarrow>
      strip (form_get f ''distances'' []) \<noteq> [] \<and>
      float_list (tokens (form_get f ''distances'' [])) = None) \<and>
   (msg_distance_count \<in> set (err_msgs f) \<longleftrightarrow>
      strip (form_get f ''distances'' []) \<noteq> [] \<and>
      (\<exists>ds. float_list (tokens (form_get f ''distances'' [])) = Some ds \<and>
            length ds \<noteq> length (tokens (form_get f ''villages'' [])))) \<and>
   (msg_capacity \<in> set (err_msgs f) \<longleftrightarrow>
      strip (form_get f ''capacity'' []) \<noteq> [] \<and>
      (case py_float (strip (form_get f ''capacity'' [])) of
         None \<Rightarrow> True
       | Some c \<Rightarrow> py_le c (Fin 0)))"
  unfolding err_msgs_validate set_append Un_iff in_set_if_single
  by (simp add: msgs_neq)

section \<open>The scenarios, evaluated\<close>

lemmas form_eval = form_get_def scenario_A_def scenario_B_def scenario_C_def scenario_D_def
  scenario_E_def scenario_F_def form_negative_milk_def form_capacity_nan_def
  form_distances_only_def form_four_errors_def scenario_B_repeated_def
  form_inexact_distances_def form_inexact_total_def

lemmas validate_eval = err_msgs_validate p_villages_validate p_milk_data_validate
  p_distances_validate p_vehicle_capacity_validate milk_parsed_def float_list_def

lemmas arith_eval = predict_supply_def py_round_def py_max_def py_gt_def py_ge_def py_lt_def
  py_le_def py_mul_def py_add_def py_sum_sequential_def py_sum_compensated_def py_sub_def
  py_neg_def py_fabs_def lit_0_0_def lit_1_05_def

lemma scenario_A_valid:
  "err_msgs scenario_A = []"
  "p_villages (validate scenario_A) = [''A'', ''B'']"
  "p_milk_data (validate scenario_A) = [Fin 100, Fin 200]"
  "p_distances (validate scenario_A) = None"
  "p_vehicle_capacity (validate scenario_A) = None"
  by (simp_all add: validate_eval form_eval string_eval parse_eval float_eval)

lemma scenario_A_numbers:
  "predict_supply [Fin 100, Fin 200] = [Fin 105, Fin 210]"
  "py_round (py_sum_sequential [Fin 105, Fin 210]) 2 = Fin 315"
  "py_round (py_sum_compensated [Fin 105, Fin 210]) 2 = Fin 315"
  by (simp_all add: arith_eval float_eval)

text \<open>
  Scenario A of the specification: villages \<^verbatim>\<open>A, B\<close> with milk \<^verbatim>\<open>100, 200\<close> give the
  predictions 105.0 and 210.0 and the total 315.0.
\<close>

lemma scenario_A_result:
  "rp_predictions (do_POST sm scenario_A) = Some [Fin 105, Fin 210]"
  "rp_total_predicted (do_POST py_sum_sequential scenario_A) = Some (Fin 315)"
  "rp_total_predicted (do_POST py_sum_compensated scenario_A) = Some (Fin 315)"
  by (simp_all add: do_POST_result scenario_A_valid scenario_A_numbers)

lemma scenario_B_valid:
  "err_msgs scenario_B = []"
  "p_villages (validate scenario_B) = [''A'', ''B'', ''C'']"
  "p_milk_data (validate scenario_B) = [Fin 50, Fin 50, Fin 50]"
  by (simp_all add: validate_eval form_eval string_eval parse_eval float_eval)

lemma scenario_B_numbers:
  "predict_supply [Fin 50, Fin 50, Fin 50] = [Fin (105 / 2), Fin (105 / 2), Fin (105 / 2)]"
  by (simp_all add: arith_eval float_eval)

lemma scenario_C_valid:
  "err_msgs scenario_C = []"
  "strip (form_get scenario_C ''distances'' []) \<noteq> []"
  "float_list (tokens (form_get scenario_C ''distances'' [])) = Some [Fin 5, Fin 8]"
  "p_distances (validate scenario_C) = Some [Fin 5, Fin 8]"
  by (simp_all add: validate_eval form_eval string_eval parse_eval float_eval)

lemma scenario_C_numbers:
  "py_round (py_sum_sequential [Fin 5, Fin 8]) 2 = Fin 13"
  "py_round (py_sum_compensated [Fin 5, Fin 8]) 2 = Fin 13"
  by (simp_all add: arith_eval float_eval)

lemma scenario_A_blank: "strip (form_get scenario_A ''distances'' []) = []"
  by (simp add: form_eval string_eval)

lemma scenario_A_capacity_blank: "strip (form_get scenario_A ''capacity'' []) = []"
  by (simp add: form_eval string_eval)

lemma scenario_D_valid:
  "err_msgs scenario_D = []"
  "p_milk_data (validate scenario_D) = [Fin 100]"
  "p_vehicle_capacity (validate scenario_D) = Some (Fin 90)"
  by (simp_all add: validate_eval form_eval string_eval parse_eval float_eval py_le_def)

lemma scenario_D_numbers:
  "predict_supply [Fin 100] = [Fin 105]"
  "py_round (py_sum_sequential [Fin 105]) 2 = Fin 105"
  "py_round (py_sum_compensated [Fin 105]) 2 = Fin 105"
  "py_ge (Fin 90) (Fin 105) = False"
  by (simp_all add: arith_eval float_eval)

lemma scenario_E_errors: "err_msgs scenario_E = [msg_villages]"
  by (simp add: validate_eval form_eval string_eval parse_eval float_eval)

lemma scenario_F_errors: "err_msgs scenario_F = [msg_milk_numbers]"
  by (simp add: validate_eval form_eval string_eval parse_eval float_eval)





lemma form_capacity_nan_valid:
  "err_msgs form_capacity_nan = []"
  "p_milk_data (validate form_capacity_nan) = [Fin 100]"
  "p_vehicle_capacity (validate form_capacity_nan) = Some NaN"
  "py_float (strip (form_get form_capacity_nan ''capacity'' [])) = Some NaN"
  by (simp_all add: validate_eval form_eval string_eval parse_eval float_eval py_le_def)

lemma form_distances_only_parsed:
  "tokens (form_get form_distances_only ''villages'' []) = []"
  "strip (form_get form_distances_only ''distances'' []) \<noteq> []"
  "tokens (form_get form_distances_only ''distances'' []) = [''5'', ''8'']"
  "float_list (tokens (form_get form_distances_only ''distances'' [])) = Some [Fin 5, Fin 8]"
  by (simp_all add: validate_eval form_eval string_eval parse_eval float_eval)

section \<open>Validation does not look at the sign\<close>



section \<open>One milk value for several villages\<close>

lemma concat_replicate_single: "concat (replicate n [x]) = replicate n x"
  by (induction n) simp_all

lemma form_get_milk_upd:
  "form_get (f(''milk_data'' \<mapsto> s)) ''milk_data'' d = s"
  "form_get (f(''milk_data'' \<mapsto> s)) ''villages'' d = form_get f ''villages'' d"
  "form_get (f(''milk_data'' \<mapsto> s)) ''distances'' d = form_get f ''distances'' d"
  "form_get (f(''milk_data'' \<mapsto> s)) ''capacity'' d = form_get f ''capacity'' d"
  by (simp_all add: form_get_def)

lemma validate_broadcast:
  assumes n: "1 < length (tokens (form_get f ''villages'' []))"
    and one: "tokens (form_get f ''milk_data'' []) = [v]"
    and rep: "tokens s = replicate (length (tokens (form_get f ''villages'' []))) v"
  shows "validate (f(''milk_data'' \<mapsto> s)) = validate f"
proof -
  let ?g = "f(''milk_data'' \<mapsto> s)"
  let ?n = "length (tokens (form_get f ''villages'' []))"
  from n have vs: "tokens (form_get f ''villages'' []) \<noteq> []"
    by (cases "tokens (form_get f ''villages'' [])") simp_all
  then have pos: "0 < ?n"
    by simp
  have fl_f: "float_list (tokens (form_get f ''milk_data'' [])) = map_option (\<lambda>x. [x]) (py_float v)"
    by (cases "py_float v") (simp_all add: one float_list_def)
  have fl_g: "float_list (tokens (form_get ?g ''milk_data'' [])) = map_option (replicate ?n) (py_float v)"
    using pos by (simp only: form_get_milk_upd rep float_list_replicate)
  have mp_f: "milk_parsed f = (case py_float v of None \<Rightarrow> [] | Some x \<Rightarrow> [x])"
    by (simp add: milk_parsed_def fl_f split: option.split)
  have mp_g: "milk_parsed ?g = (case py_float v of None \<Rightarrow> [] | Some x \<Rightarrow> replicate ?n x)"
    by (simp add: milk_parsed_def fl_g split: option.split)
  have tk_g: "tokens (form_get ?g ''milk_data'' []) \<noteq> []"
    using vs by (simp add: form_get_milk_upd rep)
  have 1: "p_villages (validate ?g) = p_villages (validate f)"
    by (simp only: p_villages_validate form_get_milk_upd)
  have 2: "p_milk_data (validate ?g) = p_milk_data (validate f)"
    using n vs
    by (cases "py_float v")
       (simp_all add: p_milk_data_validate form_get_milk_upd mp_f mp_g concat_replicate_single)
  have 3: "p_distances (validate ?g) = p_distances (validate f)"
    by (simp only: p_distances_validate form_get_milk_upd)
  have 4: "p_vehicle_capacity (validate ?g) = p_vehicle_capacity (validate f)"
    by (simp only: p_vehicle_capacity_validate form_get_milk_upd)
  have 5: "p_messages (validate ?g) = p_messages (validate f)"
    unfolding p_messages_validate form_get_milk_upd
    using n vs tk_g[unfolded form_get_milk_upd]
    by (cases "py_float v")
       (simp_all add: one mp_f mp_g fl_f[unfolded one] fl_g[unfolded form_get_milk_upd])
  show ?thesis
    by (rule parsed.equality) (simp_all add: 1 2 3 4 5)
qed

lemma scenario_B_tokens:
  "tokens (form_get scenario_B ''villages'' []) = [''A'', ''B'', ''C'']"
  "tokens (form_get scenario_B ''milk_data'' []) = [''50'']"
  "tokens ''50,50,50'' = [''50'', ''50'', ''50'']"
  by (simp_all add: form_eval string_eval)

section \<open>The two sums apart\<close>

text \<open>
  The two sums on an inexact addition: the distances 0.1, 0.2, 0.005 add up to 0.31
  after rounding on CPython up to 3.11 and to 0.3 from 3.12 on.
\<close>

lemma sums_differ:
  "py_round (py_sum_sequential
      [Fin (3602879701896397 / 36028797018963968), Fin (3602879701896397 / 18014398509481984),
       Fin (5764607523034235 / 1152921504606846976)]) 2 =
     Fin (5584463537939415 / 18014398509481984)"
  "py_round (py_sum_compensated
      [Fin (3602879701896397 / 36028797018963968), Fin (3602879701896397 / 18014398509481984),
       Fin (5764607523034235 / 1152921504606846976)]) 2 =
     Fin (5404319552844595 / 18014398509481984)"
  by (simp_all add: arith_eval float_eval)

lemma form_inexact_distances_valid:
  "err_msgs form_inexact_distances = []"
  "strip (form_get form_inexact_distances ''distances'' []) \<noteq> []"
  "p_distances (validate form_inexact_distances) =
     Some [Fin (3602879701896397 / 36028797018963968), Fin (3602879701896397 / 18014398509481984),
       Fin (5764607523034235 / 1152921504606846976)]"
  "float_list (tokens (form_get form_inexact_distances ''distances'' [])) =
     Some [Fin (3602879701896397 / 36028797018963968), Fin (3602879701896397 / 18014398509481984),
       Fin (5764607523034235 / 1152921504606846976)]"
  by (simp_all add: validate_eval form_eval string_eval parse_eval float_eval)

lemma form_inexact_total_valid:
  "err_msgs form_inexact_total = []"
  "p_milk_data (validate form_inexact_total) = [Fin 10000000000000000, Fin 1, Fin 1]"
  "p_vehicle_capacity (validate form_inexact_total) = Some (Fin 10500000000000002)"
  by (simp_all add: validate_eval form_eval string_eval parse_eval float_eval py_le_def)

lemma form_inexact_total_numbers:
  "predict_supply [Fin 10000000000000000, Fin 1, Fin 1] =
     [Fin 10500000000000000, lit_1_05, lit_1_05]"
  "py_round (py_sum_sequential [Fin 10500000000000000, lit_1_05, lit_1_05]) 2 =
     Fin 10500000000000004"
  "py_round (py_sum_compensated [Fin 10500000000000000, lit_1_05, lit_1_05]) 2 =
     Fin 10500000000000002"
  "py_ge (Fin 10500000000000002) (Fin 10500000000000004) = False"
  "py_ge (Fin 10500000000000002) (Fin 10500000000000002) = True"
  by (simp_all add: arith_eval float_eval)

section \<open>The claims\<close>

text \<open>
  In the statements below \<open>sm\<close> is the built-in \<^verbatim>\<open>sum\<close> of the interpreter: they hold for
  every summation function, so for the one of CPython up to 3.11 and for the one of
  CPython from 3.12 on.
\<close>

text \<open>
  C1: for every form that passes validation, the village list is not empty, the milk
  values (after the broadcast) are as many as the villages, there is one prediction per
  village, and the prediction at every index \<open>i\<close> is
  \<^verbatim>\<open>round(max(0.0, milk_data[i] * 1.05), 2)\<close>.
\<close>

theorem predictions_follow_formula:
  assumes "err_msgs f = []" and "i < length (p_villages (validate f))"
  shows "\<exists>ps. rp_predictions (do_POST sm f) = Some ps \<and>
           p_villages (validate f) \<noteq> [] \<and>
           length (p_milk_data (validate f)) = length (p_villages (validate f)) \<and>
           length ps = length (p_villages (validate f)) \<and>
           ps ! i = py_round (py_max lit_0_0 (py_mul (p_milk_data (validate f) ! i) lit_1_05)) 2"
proof -
  have len: "length (p_milk_data (validate f)) = length (p_villages (validate f))"
    using assms(1) by (rule valid_lengths)
  moreover have "p_villages (validate f) \<noteq> []"
    using assms(2) by auto
  moreover have "rp_predictions (do_POST sm f) = Some (predict_supply (p_milk_data (validate f)))"
    using assms(1) by (simp add: do_POST_result)
  moreover have "predict_supply (p_milk_data (validate f)) ! i =
      py_round (py_max lit_0_0 (py_mul (p_milk_data (validate f) ! i) lit_1_05)) 2"
    using assms(2) len by (simp add: predict_supply_def)
  ultimately show ?thesis
    by (simp add: predict_supply_def)
qed

theorem predictions_follow_formula_witness:
  "err_msgs scenario_A = [] \<and> (1::nat) < length (p_villages (validate scenario_A)) \<and>
   (\<exists>ps. rp_predictions (do_POST py_sum_compensated scenario_A) = Some ps \<and> length ps = 2 \<and>
      ps ! 1 = py_round (py_max lit_0_0 (py_mul (Fin 200) lit_1_05)) 2 \<and> ps ! 1 = Fin 210)"
  using predictions_follow_formula[where f = scenario_A and i = 1 and sm = py_sum_compensated]
  by (simp add: scenario_A_valid scenario_A_result)

text \<open>
  C2: with more than one village, a milk field holding the single value \<open>v\<close> and a milk
  field holding \<open>v\<close> once per village lead to the same call of \<^verbatim>\<open>render_page\<close>, apart from
  the echoed form: the same predictions, total, capacity verdict, and the same errors
  when \<open>v\<close> is not a number.
\<close>

theorem broadcast_law:
  assumes "1 < length (tokens (form_get f ''villages'' []))"
    and "tokens (form_get f ''milk_data'' []) = [v]"
    and "tokens s = replicate (length (tokens (form_get f ''villages'' []))) v"
  shows "do_POST sm (f(''milk_data'' \<mapsto> s)) =
           (do_POST sm f)\<lparr>rp_form_values := f(''milk_data'' \<mapsto> s)\<rparr>"
proof -
  have v: "validate (f(''milk_data'' \<mapsto> s)) = validate f"
    using assms by (rule validate_broadcast)
  then have e: "err_msgs (f(''milk_data'' \<mapsto> s)) = err_msgs f"
    by (simp add: err_msgs_def)
  show ?thesis
  proof (cases "err_msgs f = []")
    case True
    with e v show ?thesis
      by (simp add: do_POST_result)
  next
    case False
    with e v show ?thesis
      by (simp add: do_POST_errors)
  qed
qed

theorem broadcast_law_witness:
  "1 < length (tokens (form_get scenario_B ''villages'' [])) \<and>
   tokens (form_get scenario_B ''milk_data'' []) = [''50''] \<and>
   tokens ''50,50,50'' = replicate (length (tokens (form_get scenario_B ''villages'' []))) ''50'' \<and>
   do_POST py_sum_compensated scenario_B_repeated =
     (do_POST py_sum_compensated scenario_B)\<lparr>rp_form_values := scenario_B_repeated\<rparr> \<and>
   rp_predictions (do_POST py_sum_compensated scenario_B_repeated) =
     Some [Fin (105 / 2), Fin (105 / 2), Fin (105 / 2)]"
proof -
  have n: "1 < length (tokens (form_get scenario_B ''villages'' []))"
    by (simp add: scenario_B_tokens)
  have r: "tokens ''50,50,50'' =
      replicate (length (tokens (form_get scenario_B ''villages'' []))) ''50''"
    by (simp add: scenario_B_tokens numeral_3_eq_3)
  have "do_POST py_sum_compensated scenario_B_repeated =
      (do_POST py_sum_compensated scenario_B)\<lparr>rp_form_values := scenario_B_repeated\<rparr>"
    unfolding scenario_B_repeated_def
    by (rule broadcast_law[OF n scenario_B_tokens(2) r])
  moreover have "rp_predictions (do_POST py_sum_compensated scenario_B) =
      Some [Fin (105 / 2), Fin (105 / 2), Fin (105 / 2)]"
    by (simp add: do_POST_result scenario_B_valid scenario_B_numbers)
  ultimately show ?thesis
    using n r scenario_B_tokens(2) by simp
qed

text \<open>
  C3: whenever validation produces an error, the handler calls \<^verbatim>\<open>render_page\<close> with
  \<^verbatim>\<open>result=False\<close>, the form and the error messages only: no village list, prediction,
  route, total or capacity verdict is passed, and the page has an empty result section,
  one alert per error and the echoed form values.
\<close>

theorem errors_suppress_result:
  assumes "err_msgs f \<noteq> []"
  shows "do_POST sm f =
           \<lparr>rp_result = False, rp_villages_list = None, rp_predictions = None,
            rp_route = None, rp_total_distance = None, rp_capacity = None,
            rp_capacity_ok = None, rp_total_predicted = None, rp_form_values = f,
            rp_messages = map (\<lambda>m. (''error'', m)) (err_msgs f)\<rparr> \<and>
         response sm f =
           Inr \<lparr>page_messages = map (\<lambda>m. (''alert'', html_escape m)) (err_msgs f),
                page_villages = html_escape (form_get f ''villages'' []),
                page_milk_data = html_escape (form_get f ''milk_data'' []),
                page_distances = html_escape (form_get f ''distances'' []),
                page_capacity = html_escape (form_get f ''capacity'' []),
                page_result = None\<rparr>"
  using assms
  by (simp add: response_def do_POST_errors render_page_def make_messages_html_def Let_def comp_def)

theorem errors_suppress_result_witness:
  "err_msgs scenario_E \<noteq> [] \<and>
   rp_result (do_POST py_sum_compensated scenario_E) = False \<and>
   rp_predictions (do_POST py_sum_compensated scenario_E) = None \<and>
   rp_messages (do_POST py_sum_compensated scenario_E) = [(''error'', msg_villages)] \<and>
   (\<exists>pg. response py_sum_compensated scenario_E = Inr pg \<and> page_result pg = None \<and>
      page_messages pg = [(''alert'', html_escape msg_villages)])"
  using errors_suppress_result[where f = scenario_E and sm = py_sum_compensated]
  by (simp add: scenario_E_errors)



text \<open>
  C5: the claim that a non-blank capacity gives the capacity error exactly when it does
  not parse or its value is not strictly positive fails on the input \<^verbatim>\<open>nan\<close>: it parses
  as a float, the float is not greater than zero, and still no capacity error is
  produced, because the handler tests \<^verbatim>\<open>vehicle_capacity <= 0\<close>, which is false for NaN.
  The form passes validation and the page is rendered with the capacity NaN and the
  verdict \<^verbatim>\<open>False\<close>.
\<close>

theorem capacity_nan_accepted:
  "strip (form_get form_capacity_nan ''capacity'' []) = ''nan'' \<and>
   py_float ''nan'' = Some NaN \<and>
   \<not> py_gt NaN (Fin 0) \<and> \<not> py_le NaN (Fin 0) \<and>
   msg_capacity \<notin> set (err_msgs form_capacity_nan) \<and>
   err_msgs form_capacity_nan = [] \<and>
   rp_result (do_POST sm form_capacity_nan) = True \<and>
   rp_capacity (do_POST sm form_capacity_nan) = Some NaN \<and>
   rp_capacity_ok (do_POST sm form_capacity_nan) = Some False"
proof -
  have "strip (form_get form_capacity_nan ''capacity'' []) = ''nan''"
    by (simp add: form_eval string_eval)
  moreover have "py_float ''nan'' = Some NaN"
    by (simp add: string_eval parse_eval)
  moreover have "\<not> py_gt NaN (Fin 0)" "\<not> py_le NaN (Fin 0)" "py_ge NaN x = False" for x
    by (simp_all add: py_gt_def py_lt_def py_le_def py_ge_def)
  ultimately show ?thesis
    by (simp add: form_capacity_nan_valid do_POST_result)
qed

text \<open>
  C6: \<^verbatim>\<open>optimize_route\<close> returns \<^verbatim>\<open>round(sum(distances), 2)\<close> when it is given distances
  and no total otherwise; so for every form that passes validation the total distance
  is absent when the distances field is blank, and is \<^verbatim>\<open>round(sum(distances), 2)\<close> of the
  parsed distances, one per village, when it is not.  Here \<^verbatim>\<open>sum\<close> is the built-in of the
  interpreter, whichever it is.
\<close>

theorem total_distance_rule:
  "snd (optimize_route sm vs (Some ds)) = Some (py_round (sm ds) 2) \<and>
   snd (optimize_route sm vs None) = None \<and>
   (err_msgs f = [] \<longrightarrow>
      (strip (form_get f ''distances'' []) = [] \<longrightarrow> rp_total_distance (do_POST sm f) = None) \<and>
      (strip (form_get f ''distances'' []) \<noteq> [] \<longrightarrow>
         (\<exists>dist_vals. float_list (tokens (form_get f ''distances'' [])) = Some dist_vals \<and>
            length dist_vals = length (p_villages (validate f)) \<and>
            rp_total_distance (do_POST sm f) = Some (py_round (sm dist_vals) 2))))"
proof (intro conjI impI)
  show "snd (optimize_route sm vs (Some ds)) = Some (py_round (sm ds) 2)"
    by (simp add: optimize_route_def)
  show "snd (optimize_route sm vs None) = None"
    by (simp add: optimize_route_def)
next
  assume "err_msgs f = []" and "strip (form_get f ''distances'' []) = []"
  then show "rp_total_distance (do_POST sm f) = None"
    by (simp add: do_POST_result p_distances_validate)
next
  assume ok: "err_msgs f = []" and nb: "strip (form_get f ''distances'' []) \<noteq> []"
  from ok have "msg_distance_numbers \<notin> set (err_msgs f)" "msg_distance_count \<notin> set (err_msgs f)"
    by simp_all
  with nb obtain dist_vals
    where dv: "float_list (tokens (form_get f ''distances'' [])) = Some dist_vals"
      and len: "length dist_vals = length (tokens (form_get f ''villages'' []))"
    using err_msgs_membership[of f] by auto
  from ok nb dv len
  have "rp_total_distance (do_POST sm f) = Some (py_round (sm dist_vals) 2)"
    by (simp add: do_POST_result p_distances_validate)
  with dv len
  show "\<exists>dist_vals. float_list (tokens (form_get f ''distances'' [])) = Some dist_vals \<and>
            length dist_vals = length (p_villages (validate f)) \<and>
            rp_total_distance (do_POST sm f) = Some (py_round (sm dist_vals) 2)"
    by (simp add: p_villages_validate)
qed

text \<open>
  The rule on scenario C (5 and 8 give 13.0 under both sums), on scenario A (no
  distances, no total), and on the distances 0.1, 0.2, 0.005, where the total is 0.31
  on CPython up to 3.11 and 0.3 from 3.12 on.
\<close>

theorem total_distance_rule_witness:
  "err_msgs scenario_C = [] \<and> strip (form_get scenario_C ''distances'' []) \<noteq> [] \<and>
   rp_total_distance (do_POST py_sum_sequential scenario_C) = Some (Fin 13) \<and>
   rp_total_distance (do_POST py_sum_compensated scenario_C) = Some (Fin 13) \<and>
   err_msgs scenario_A = [] \<and> strip (form_get scenario_A ''distances'' []) = [] \<and>
   rp_total_distance (do_POST py_sum_compensated scenario_A) = None \<and>
   rp_total_distance (do_POST py_sum_compensated scenario_A) \<noteq> Some (Fin 0) \<and>
   err_msgs form_inexact_distances = [] \<and>
   strip (form_get form_inexact_distances ''distances'' []) \<noteq> [] \<and>
   rp_total_distance (do_POST py_sum_sequential form_inexact_distances) =
     Some (Fin (5584463537939415 / 18014398509481984)) \<and>
   rp_total_distance (do_POST py_sum_compensated form_inexact_distances) =
     Some (Fin (5404319552844595 / 18014398509481984))"
proof -
  note c = scenario_C_valid and a = scenario_A_valid and i = form_inexact_distances_valid
  from total_distance_rule[where f = scenario_C and sm = py_sum_sequential] c
  have 1: "rp_total_distance (do_POST py_sum_sequential scenario_C) = Some (Fin 13)"
    by (simp add: scenario_C_numbers)
  from total_distance_rule[where f = scenario_C and sm = py_sum_compensated] c
  have 2: "rp_total_distance (do_POST py_sum_compensated scenario_C) = Some (Fin 13)"
    by (simp add: scenario_C_numbers)
  from total_distance_rule[where f = scenario_A and sm = py_sum_compensated] a scenario_A_blank
  have 3: "rp_total_distance (do_POST py_sum_compensated scenario_A) = None"
    by simp
  from total_distance_rule[where f = form_inexact_distances and sm = py_sum_sequential] i
  have 4: "rp_total_distance (do_POST py_sum_sequential form_inexact_distances) =
      Some (Fin (5584463537939415 / 18014398509481984))"
    by (simp add: sums_differ)
  from total_distance_rule[where f = form_inexact_distances and sm = py_sum_compensated] i
  have 5: "rp_total_distance (do_POST py_sum_compensated form_inexact_distances) =
      Some (Fin (5404319552844595 / 18014398509481984))"
    by (simp add: sums_differ)
  from 1 2 3 4 5 c(1,2) a(1) scenario_A_blank i(1,2) show ?thesis
    by simp
qed

text \<open>
  C7: for every form that passes validation, the total predicted volume is
  \<^verbatim>\<open>round(sum(predictions), 2)\<close>, with the built-in \<^verbatim>\<open>sum\<close> of the interpreter, the capacity
  passed on is the parsed capacity, and the verdict is \<^verbatim>\<open>capacity >= total_predicted\<close>
  when there is a capacity and absent when there is none (which is the case when the
  capacity field is blank).  In scenario D (village \<^verbatim>\<open>A\<close>, milk \<^verbatim>\<open>100\<close>, capacity \<^verbatim>\<open>90\<close>)
  the total is 105.0 and the verdict is \<^verbatim>\<open>False\<close>, on CPython up to 3.11 and from 3.12 on.
\<close>

theorem capacity_verdict:
  "(err_msgs f = [] \<longrightarrow>
      (\<exists>ps tp. rp_predictions (do_POST sm f) = Some ps \<and>
         rp_total_predicted (do_POST sm f) = Some tp \<and>
         tp = py_round (sm ps) 2 \<and>
         rp_capacity (do_POST sm f) = p_vehicle_capacity (validate f) \<and>
         rp_capacity_ok (do_POST sm f) =
           (case rp_capacity (do_POST sm f) of
              None \<Rightarrow> None
            | Some c \<Rightarrow> Some (py_ge c tp)) \<and>
         (strip (form_get f ''capacity'' []) = [] \<longrightarrow>
            rp_capacity (do_POST sm f) = None \<and> rp_capacity_ok (do_POST sm f) = None))) \<and>
   err_msgs scenario_D = [] \<and>
   rp_capacity (do_POST py_sum_sequential scenario_D) = Some (Fin 90) \<and>
   rp_total_predicted (do_POST py_sum_sequential scenario_D) = Some (Fin 105) \<and>
   rp_capacity_ok (do_POST py_sum_sequential scenario_D) = Some False \<and>
   rp_capacity (do_POST py_sum_compensated scenario_D) = Some (Fin 90) \<and>
   rp_total_predicted (do_POST py_sum_compensated scenario_D) = Some (Fin 105) \<and>
   rp_capacity_ok (do_POST py_sum_compensated scenario_D) = Some False"
proof (intro conjI impI)
  assume ok: "err_msgs f = []"
  show "\<exists>ps tp. rp_predictions (do_POST sm f) = Some ps \<and>
         rp_total_predicted (do_POST sm f) = Some tp \<and>
         tp = py_round (sm ps) 2 \<and>
         rp_capacity (do_POST sm f) = p_vehicle_capacity (validate f) \<and>
         rp_capacity_ok (do_POST sm f) =
           (case rp_capacity (do_POST sm f) of
              None \<Rightarrow> None
            | Some c \<Rightarrow> Some (py_ge c tp)) \<and>
         (strip (form_get f ''capacity'' []) = [] \<longrightarrow>
            rp_capacity (do_POST sm f) = None \<and> rp_capacity_ok (do_POST sm f) = None)"
    by (cases "p_vehicle_capacity (validate f)")
       (simp_all add: do_POST_result[OF ok] p_vehicle_capacity_validate split: if_splits)
next
  show "err_msgs scenario_D = []"
    by (rule scenario_D_valid)
  show "rp_capacity (do_POST py_sum_sequential scenario_D) = Some (Fin 90)"
    by (simp add: do_POST_result scenario_D_valid)
  show "rp_total_predicted (do_POST py_sum_sequential scenario_D) = Some (Fin 105)"
    by (simp add: do_POST_result scenario_D_valid scenario_D_numbers)
  show "rp_capacity_ok (do_POST py_sum_sequential scenario_D) = Some False"
    by (simp add: do_POST_result scenario_D_valid scenario_D_numbers)
  show "rp_capacity (do_POST py_sum_compensated scenario_D) = Some (Fin 90)"
    by (simp add: do_POST_result scenario_D_valid)
  show "rp_total_predicted (do_POST py_sum_compensated scenario_D) = Some (Fin 105)"
    by (simp add: do_POST_result scenario_D_valid scenario_D_numbers)
  show "rp_capacity_ok (do_POST py_sum_compensated scenario_D) = Some False"
    by (simp add: do_POST_result scenario_D_valid scenario_D_numbers)
qed

text \<open>
  The rule on scenario D, on scenario A (no capacity, no verdict), and on the milk
  values 1e16, 1, 1 with the capacity 10500000000000002, where the total is
  10500000000000004 and the verdict \<^verbatim>\<open>False\<close> on CPython up to 3.11, and the total is
  10500000000000002 and the verdict \<^verbatim>\<open>True\<close> from 3.12 on.
\<close>

theorem capacity_verdict_witness:
  "err_msgs scenario_D = [] \<and>
   (\<exists>ps. rp_predictions (do_POST py_sum_compensated scenario_D) = Some ps \<and>
      rp_total_predicted (do_POST py_sum_compensated scenario_D) =
        Some (py_round (py_sum_compensated ps) 2)) \<and>
   rp_capacity_ok (do_POST py_sum_compensated scenario_D) = Some (py_ge (Fin 90) (Fin 105)) \<and>
   err_msgs scenario_A = [] \<and> strip (form_get scenario_A ''capacity'' []) = [] \<and>
   rp_capacity_ok (do_POST py_sum_compensated scenario_A) = None \<and>
   err_msgs form_inexact_total = [] \<and>
   rp_total_predicted (do_POST py_sum_sequential form_inexact_total) =
     Some (Fin 10500000000000004) \<and>
   rp_capacity_ok (do_POST py_sum_sequential form_inexact_total) = Some False \<and>
   rp_total_predicted (do_POST py_sum_compensated form_inexact_total) =
     Some (Fin 10500000000000002) \<and>
   rp_capacity_ok (do_POST py_sum_compensated form_inexact_total) = Some True"
proof -
  note t = form_inexact_total_valid and n = form_inexact_total_numbers
  from capacity_verdict[where f = scenario_D and sm = py_sum_compensated]
    capacity_verdict[where f = scenario_A and sm = py_sum_compensated]
  have 1: "(\<exists>ps. rp_predictions (do_POST py_sum_compensated scenario_D) = Some ps \<and>
      rp_total_predicted (do_POST py_sum_compensated scenario_D) =
        Some (py_round (py_sum_compensated ps) 2)) \<and>
    rp_capacity_ok (do_POST py_sum_compensated scenario_D) = Some (py_ge (Fin 90) (Fin 105)) \<and>
    rp_capacity_ok (do_POST py_sum_compensated scenario_A) = None"
    by (auto simp add: scenario_A_valid scenario_D_valid scenario_D_numbers
        scenario_A_capacity_blank)
  from capacity_verdict[where f = form_inexact_total and sm = py_sum_sequential] t
  have 2: "rp_total_predicted (do_POST py_sum_sequential form_inexact_total) =
      Some (Fin 10500000000000004) \<and>
    rp_capacity_ok (do_POST py_sum_sequential form_inexact_total) = Some False"
    by (auto simp add: do_POST_result n)
  from capacity_verdict[where f = form_inexact_total and sm = py_sum_compensated] t
  have 3: "rp_total_predicted (do_POST py_sum_compensated form_inexact_total) =
      Some (Fin 10500000000000002) \<and>
    rp_capacity_ok (do_POST py_sum_compensated form_inexact_total) = Some True"
    by (auto simp add: do_POST_result n)
  from 1 2 3 scenario_D_valid(1) scenario_A_valid(1) scenario_A_capacity_blank t(1)
  show ?thesis
    by simp
qed

text \<open>
  C8: for every form that passes validation, the route and the list of villages shown
  are the parsed village sequence itself; \<^verbatim>\<open>optimize_route\<close> returns its first argument
  as it is, with or without distances.
\<close>

theorem route_is_village_sequence:
  "fst (optimize_route sm vs ds) = vs \<and>
   (err_msgs f = [] \<longrightarrow>
      rp_route (do_POST sm f) = Some (tokens (form_get f ''villages'' [])) \<and>
      rp_villages_list (do_POST sm f) = Some (tokens (form_get f ''villages'' [])))"
  by (simp add: optimize_route_def do_POST_result p_villages_validate split: option.split)

theorem route_is_village_sequence_witness:
  "err_msgs scenario_A = [] \<and>
   rp_route (do_POST py_sum_compensated scenario_A) = Some [''A'', ''B'']"
  using route_is_village_sequence[where f = scenario_A and sm = py_sum_compensated
      and vs = "[]" and ds = None]
  by (simp add: scenario_A_valid scenario_A_valid(2)[unfolded p_villages_validate])



text \<open>
  C10: when the villages field has no token, the distances field is not blank and all
  its tokens are numbers, the village error is in the list, and the distance count
  error is in the list as well exactly when there is at least one distance token,
  because the count is compared with the empty village list.
\<close>

theorem distance_count_error_without_villages:
  assumes "tokens (form_get f ''villages'' []) = []"
    and "strip (form_get f ''distances'' []) \<noteq> []"
    and "float_list (tokens (form_get f ''distances'' [])) = Some ds"
  shows "msg_villages \<in> set (err_msgs f) \<and>
         (msg_distance_count \<in> set (err_msgs f) \<longleftrightarrow>
            tokens (form_get f ''distances'' []) \<noteq> [])"
  using assms float_list_length[OF assms(3)] err_msgs_membership[of f]
  by auto

theorem distance_count_error_without_villages_witness:
  "tokens (form_get form_distances_only ''villages'' []) = [] \<and>
   strip (form_get form_distances_only ''distances'' []) \<noteq> [] \<and>
   float_list (tokens (form_get form_distances_only ''distances'' [])) = Some [Fin 5, Fin 8] \<and>
   msg_villages \<in> set (err_msgs form_distances_only) \<and>
   msg_distance_count \<in> set (err_msgs form_distances_only)"
proof -
  note p = form_distances_only_parsed
  from distance_count_error_without_villages[OF p(1,2,4)] p(3)
  have "msg_villages \<in> set (err_msgs form_distances_only) \<and>
        msg_distance_count \<in> set (err_msgs form_distances_only)"
    by simp
  with p(1,2,4) show ?thesis
    by simp
qed

end
